theory Spec2Isabelle
  imports Main "HOL-Library.Word"
begin

section \<open>Go values shared by the packages\<close>

text \<open>
  A Go \<^verbatim>\<open>error\<close> is an interface value: \<^verbatim>\<open>nil\<close> or some error. The
  model uses \<open>error option\<close> with \<open>None\<close> for \<^verbatim>\<open>nil\<close>. A slice is \<^verbatim>\<open>nil\<close>
  or a (possibly empty) sequence; the two are different values in Go
  (\<^verbatim>\<open>[]T{} != nil\<close>), so the model keeps them apart.
\<close>

datatype error = Err string

datatype 'a slice = NilSlice | Slice "'a list"

text \<open>
  Arguments of the variadic logging methods (\<^verbatim>\<open>...interface{}\<close>) and the message they
  make. The message is kept unrendered: \<open>Plain args\<close> is what \<^verbatim>\<open>fmt.Sprint(args...)\<close>
  would render, \<open>Formatted t args\<close> what \<^verbatim>\<open>fmt.Sprintf(t, args...)\<close> would.
\<close>

datatype Level =
  DebugLevel | InfoLevel | WarnLevel | ErrorLevel | DPanicLevel | PanicLevel | FatalLevel

datatype Arg = StringArg string | IntArg int | LevelArg Level

datatype Message = Plain "Arg list" | Formatted string "Arg list"

text \<open>
  How a call ends: it returns a value, the process exits (\<^verbatim>\<open>os.Exit\<close>), or it panics.
  Every function that has an effect takes the state and gives the state back with its
  outcome.
\<close>

datatype PanicValue = NilDereference | LoggedPanic Message

datatype 'a Outcome = Returns 'a | Exits int | Panics PanicValue

section \<open>Entity, repository port and use case\<close>

text \<open>
  Modelled from the spec: the declaration of \<^verbatim>\<open>entity.MyObject\<close> is not among the
  sources. The spec treats it as an identifier plus payload owned by value and
  suggests the placeholder "id + name"; no behaviour depends on its fields.
  \<open>MyObject_zero\<close> is Go's zero value \<^verbatim>\<open>entity.MyObject{}\<close>.
\<close>

record MyObject =
  ID :: "64 word"
  Name :: string

definition MyObject_zero :: MyObject where
  "MyObject_zero = \<lparr>ID = 0, Name = ''''\<rparr>"

text \<open>
  The port \<^verbatim>\<open>repository.MyObjectRepository\<close> is an interface with two methods. An
  implementation is any pair of operations over a state \<open>'s\<close> of its own; it may
  return a value together with an error, exit or panic. An interface value
  may be \<^verbatim>\<open>nil\<close> (\<open>None\<close>).
\<close>

record 's MyObjectRepository_port =
  port_GetAllObjects :: "'s \<Rightarrow> (MyObject slice \<times> error option) Outcome \<times> 's"
  port_GetObjectByID :: "64 word \<Rightarrow> 's \<Rightarrow> (MyObject \<times> error option) Outcome \<times> 's"

record 's MyObjectUseCase =
  myObjectRepo :: "'s MyObjectRepository_port option"

definition NewMyObjectUseCase ::
  "'s MyObjectRepository_port option \<Rightarrow> 's MyObjectUseCase option" where
  "NewMyObjectUseCase myObjectRepo' = Some \<lparr>myObjectRepo = myObjectRepo'\<rparr>"

text \<open>
  \<^verbatim>\<open>func (uc *MyObjectUseCase) GetAllObjects() ([]entity.MyObject, error)\<close>:
  a nil receiver or a nil interface panics at the call; otherwise the port is called
  once, and \<^verbatim>\<open>if err != nil { return nil, err }; return objects, nil\<close>.
\<close>

definition MyObjectUseCase_GetAllObjects ::
  "'s MyObjectUseCase option \<Rightarrow> 's \<Rightarrow> (MyObject slice \<times> error option) Outcome \<times> 's" where
  "MyObjectUseCase_GetAllObjects uc s =
     (case uc of
        None \<Rightarrow> (Panics NilDereference, s)
      | Some u \<Rightarrow>
          (case myObjectRepo u of
             None \<Rightarrow> (Panics NilDereference, s)
           | Some repo \<Rightarrow>
               (case port_GetAllObjects repo s of
                  (Returns (objects, err), s') \<Rightarrow>
                    (if err \<noteq> None then (Returns (NilSlice, err), s')
                     else (Returns (objects, None), s'))
                | (Exits n, s') \<Rightarrow> (Exits n, s')
                | (Panics p, s') \<Rightarrow> (Panics p, s'))))"

text \<open>
  \<^verbatim>\<open>func (uc *MyObjectUseCase) GetObjectByID(id int64) (entity.MyObject, error)\<close>:
  \<^verbatim>\<open>if err != nil { return entity.MyObject{}, err }; return object, nil\<close>.
\<close>

definition MyObjectUseCase_GetObjectByID ::
  "'s MyObjectUseCase option \<Rightarrow> 64 word \<Rightarrow> 's \<Rightarrow> (MyObject \<times> error option) Outcome \<times> 's" where
  "MyObjectUseCase_GetObjectByID uc id' s =
     (case uc of
        None \<Rightarrow> (Panics NilDereference, s)
      | Some u \<Rightarrow>
          (case myObjectRepo u of
             None \<Rightarrow> (Panics NilDereference, s)
           | Some repo \<Rightarrow>
               (case port_GetObjectByID repo id' s of
                  (Returns (object, err), s') \<Rightarrow>
                    (if err \<noteq> None then (Returns (MyObject_zero, err), s')
                     else (Returns (object, None), s'))
                | (Exits n, s') \<Rightarrow> (Exits n, s')
                | (Panics p, s') \<Rightarrow> (Panics p, s'))))"

section \<open>Repository adapter\<close>

text \<open>
  \<^verbatim>\<open>type MyObjectRepository struct {}\<close> has no fields. Its methods have pointer
  receivers and never read the receiver, so they also run on a nil pointer. They touch
  nothing: the state \<open>s\<close> of whatever surrounds the call comes back as it went in.
\<close>

datatype MyObjectRepository = MyObjectRepository

definition NewMyObjectRepository :: "MyObjectRepository option" where
  "NewMyObjectRepository = Some MyObjectRepository"

definition MyObjectRepository_GetAllObjects ::
  "MyObjectRepository option \<Rightarrow> 's \<Rightarrow> (MyObject slice \<times> error option) Outcome \<times> 's" where
  "MyObjectRepository_GetAllObjects r s = (Returns (Slice [], None), s)"

definition MyObjectRepository_GetObjectByID ::
  "MyObjectRepository option \<Rightarrow> 64 word \<Rightarrow> 's \<Rightarrow> (MyObject \<times> error option) Outcome \<times> 's" where
  "MyObjectRepository_GetObjectByID r id' s = (Returns (MyObject_zero, None), s)"

text \<open>
  The adapter satisfies the port interface (Go's implicit interface satisfaction): this is
  the value the entry point injects into the use case.
\<close>

definition MyObjectRepository_as_port ::
  "MyObjectRepository option \<Rightarrow> 's MyObjectRepository_port" where
  "MyObjectRepository_as_port r =
     \<lparr>port_GetAllObjects = MyObjectRepository_GetAllObjects r,
      port_GetObjectByID = MyObjectRepository_GetObjectByID r\<rparr>"

section \<open>The process environment of the logger\<close>

text \<open>
  What the logger reads and writes lies outside the program: the environment variables,
  standard output, the sink a caller may pass in \<^verbatim>\<open>Config.Output\<close>, and what a sink
  answers to \<^verbatim>\<open>Sync()\<close>. The state \<open>World\<close> holds them; everything written is
  appended to \<open>trace\<close> in the order it happens.
\<close>

datatype Sink = Stdout | Writer nat

datatype Encoding = Console | JSON

datatype Event =
  Printed string
| Written Sink Encoding Level Message
| Synced Sink

record World =
  env :: "string \<Rightarrow> string option"
  trace :: "Event list"
  sync_result :: "Sink \<Rightarrow> error option"

text \<open>\<^verbatim>\<open>os.Getenv\<close>: the value of the variable, empty when it is not set.\<close>

definition Getenv :: "World \<Rightarrow> string \<Rightarrow> string" where
  "Getenv w key = (case env w key of None \<Rightarrow> [] | Some v \<Rightarrow> v)"

text \<open>
  \<^verbatim>\<open>strings.ToLower\<close> of the Go standard library. A Go string is a byte sequence. When
  every byte is ASCII the function maps \<^verbatim>\<open>'A'..'Z'\<close> to \<^verbatim>\<open>'a'..'z'\<close> and keeps the
  rest; otherwise it maps each rune through the Unicode tables, which are not part of
  this program and are taken as the parameter \<open>unicode_lower\<close>.
\<close>

definition isASCII :: "char \<Rightarrow> bool" where
  "isASCII c = ((of_char c :: nat) < 128)"

definition lower_byte :: "char \<Rightarrow> char" where
  "lower_byte c =
     (if 65 \<le> (of_char c :: nat) \<and> (of_char c :: nat) \<le> 90
      then char_of ((of_char c :: nat) + 32) else c)"

definition ToLower :: "(string \<Rightarrow> string) \<Rightarrow> string \<Rightarrow> string" where
  "ToLower unicode_lower s =
     (if list_all isASCII s then map lower_byte s else unicode_lower s)"

text \<open>
  The line \<^verbatim>\<open>fmt.Printf\<close> prints for an invalid level, as UTF-8 bytes, with its
  final newline.
\<close>

definition invalid_level_warning :: string where
  "invalid_level_warning =
     ''N'' @ [CHR 0xC3, CHR 0xAD] @ ''vel de log inv'' @ [CHR 0xC3, CHR 0xA1] @
     ''lido, usando '' @ [CHR 0x27] @ ''info'' @ [CHR 0x27] @ '' como padr'' @
     [CHR 0xC3, CHR 0xA3] @ ''o.'' @ [CHR 0x0A]"

section \<open>The logging facility (zap)\<close>

text \<open>
  The zap library is not part of the repository. The model keeps what the wrapper's
  behaviour depends on, after the library's documented contract: the levels and their
  order (\<^verbatim>\<open>DebugLevel = -1\<close> up to \<^verbatim>\<open>FatalLevel = 5\<close>); a core made by
  \<^verbatim>\<open>zapcore.NewCore(encoder, output, level)\<close> writes an entry to its output, in its
  encoding, exactly when the entry's level is at least the core's level; after writing
  an entry above \<^verbatim>\<open>ErrorLevel\<close> the core flushes its output and ignores the
  answer (\<^verbatim>\<open>if ent.Level > ErrorLevel { _ = c.Sync() }\<close>); a sugared logger's
  \<^verbatim>\<open>Fatal\<close> calls \<^verbatim>\<open>os.Exit(1)\<close> after that and its \<^verbatim>\<open>Panic\<close> panics
  after that, also when the level is disabled and nothing was written; \<^verbatim>\<open>Sync\<close>
  flushes the output and returns what the output's \<^verbatim>\<open>Sync\<close> returns. A sink
  accepts every write.
\<close>

fun level_rank :: "Level \<Rightarrow> int" where
  "level_rank DebugLevel = -1"
| "level_rank InfoLevel = 0"
| "level_rank WarnLevel = 1"
| "level_rank ErrorLevel = 2"
| "level_rank DPanicLevel = 3"
| "level_rank PanicLevel = 4"
| "level_rank FatalLevel = 5"

definition Enabled :: "Level \<Rightarrow> Level \<Rightarrow> bool" where
  "Enabled minimum lvl = (level_rank minimum \<le> level_rank lvl)"

record Core =
  enc :: Encoding
  out :: Sink
  level :: Level

record ZapLogger =
  core :: Core
  addCaller :: bool
  callerSkip :: int
  addStacktrace :: "Level option"

datatype SugaredLogger = Sugared ZapLogger

fun sugar_log :: "SugaredLogger \<Rightarrow> Level \<Rightarrow> Message \<Rightarrow> World \<Rightarrow> unit Outcome \<times> World" where
  "sugar_log (Sugared z) lvl msg w =
     (let c = core z;
          w' = (if Enabled (level c) lvl
                then w\<lparr>trace := trace w @ Written (out c) (enc c) lvl msg #
                         (if level_rank ErrorLevel < level_rank lvl then [Synced (out c)] else [])\<rparr>
                else w)
      in if lvl = FatalLevel then (Exits 1, w')
         else if lvl = PanicLevel then (Panics (LoggedPanic msg), w')
         else (Returns (), w'))"

definition zap_Sync :: "ZapLogger \<Rightarrow> World \<Rightarrow> error option Outcome \<times> World" where
  "zap_Sync z w =
     (Returns (sync_result w (out (core z))),
      w\<lparr>trace := trace w @ [Synced (out (core z))]\<rparr>)"

text \<open>Sequencing: the rest of a function body runs only when a call returns.\<close>

definition andThen ::
  "'a Outcome \<times> 's \<Rightarrow> ('a \<Rightarrow> 's \<Rightarrow> 'b Outcome \<times> 's) \<Rightarrow> 'b Outcome \<times> 's" where
  "andThen r k =
     (case r of
        (Returns x, s) \<Rightarrow> k x s
      | (Exits n, s) \<Rightarrow> (Exits n, s)
      | (Panics p, s) \<Rightarrow> (Panics p, s))"

section \<open>The logger\<close>

text \<open>
  \<^verbatim>\<open>type Logger struct { zap *zap.Logger; sugar *zap.SugaredLogger }\<close> and
  \<^verbatim>\<open>type Config struct { IsDevelopment bool; Output zapcore.WriteSyncer; CallerSkip int }\<close>.
  Pointers and interface values may be nil (\<open>None\<close>). \<^verbatim>\<open>CallerSkip\<close> is only
  compared with zero and passed on, so an \<open>int\<close> stands for Go's \<^verbatim>\<open>int\<close>.

  \<^verbatim>\<open>NewLogger\<close> follows the source statement by statement. Of the encoder it
  builds, the model keeps the kind (\<^verbatim>\<open>NewConsoleEncoder\<close> or
  \<^verbatim>\<open>NewJSONEncoder\<close>); the key names and the time and level formats set on the
  encoder configuration shape the bytes of a record, which the trace does not render.
\<close>

record Logger =
  zap :: "ZapLogger option"
  sugar :: "SugaredLogger option"

record Config =
  IsDevelopment :: bool
  Output :: "Sink option"
  CallerSkip :: int

definition NewLogger ::
  "(string \<Rightarrow> string) \<Rightarrow> Config \<Rightarrow> World \<Rightarrow> (Logger option \<times> error option) Outcome \<times> World" where
  "NewLogger unicode_lower cfg w =
     (let envLogLevel = Getenv w ''LOG_LEVEL'';
          lowered = ToLower unicode_lower envLogLevel;
          (logLevel, w1) =
            (if lowered = ''debug'' then (DebugLevel, w)
             else if lowered = ''info'' then (InfoLevel, w)
             else if lowered = ''warn'' then (WarnLevel, w)
             else if lowered = ''error'' then (ErrorLevel, w)
             else if lowered = ''fatal'' then (FatalLevel, w)
             else if lowered = ''panic'' then (PanicLevel, w)
             else (InfoLevel, w\<lparr>trace := trace w @ [Printed invalid_level_warning]\<rparr>));
          isDevelopmentMode =
            (if \<not> IsDevelopment cfg
             then (if ToLower unicode_lower (Getenv w1 ''DEV_MODE'') = ''true'' then True
                   else IsDevelopment cfg)
             else IsDevelopment cfg);
          output = (case Output cfg of None \<Rightarrow> Stdout | Some sink \<Rightarrow> sink);
          encoder = (if isDevelopmentMode then Console else JSON);
          core' = \<lparr>enc = encoder, out = output, level = logLevel\<rparr>;
          callerSkip' = (if CallerSkip cfg \<le> 0 then 1 else CallerSkip cfg);
          zapLogger = \<lparr>core = core', addCaller = True, callerSkip = callerSkip',
                       addStacktrace = Some ErrorLevel\<rparr>;
          sugaredLogger = Sugared zapLogger;
          l = \<lparr>zap = Some zapLogger, sugar = Some sugaredLogger\<rparr>
      in andThen (sugar_log sugaredLogger InfoLevel
                    (Plain [StringArg ''Logger successfully initialized.'']) w1) (\<lambda>_ w2.
         andThen (if isDevelopmentMode
                  then sugar_log sugaredLogger DebugLevel
                         (Plain [StringArg ''Development mode ENABLED (console output).'']) w2
                  else sugar_log sugaredLogger DebugLevel
                         (Plain [StringArg ''Production mode ENABLED (JSON output).'']) w2) (\<lambda>_ w3.
         andThen (sugar_log sugaredLogger DebugLevel
                    (Formatted ''Log level: %s'' [LevelArg logLevel]) w3) (\<lambda>_ w4.
         (Returns (Some l, None), w4)))))"

text \<open>\<^verbatim>\<open>Sync\<close>: \<^verbatim>\<open>if l == nil || l.zap == nil { return nil }; return l.zap.Sync()\<close>.\<close>

definition Sync :: "Logger option \<Rightarrow> World \<Rightarrow> error option Outcome \<times> World" where
  "Sync l w =
     (case l of
        None \<Rightarrow> (Returns None, w)
      | Some lg \<Rightarrow> (case zap lg of None \<Rightarrow> (Returns None, w) | Some z \<Rightarrow> zap_Sync z w))"

text \<open>The getters read a field of the receiver, which panics on a nil receiver.\<close>

definition GetZap :: "Logger option \<Rightarrow> World \<Rightarrow> ZapLogger option Outcome \<times> World" where
  "GetZap l w = (case l of None \<Rightarrow> (Panics NilDereference, w) | Some lg \<Rightarrow> (Returns (zap lg), w))"

definition GetSugar :: "Logger option \<Rightarrow> World \<Rightarrow> SugaredLogger option Outcome \<times> World" where
  "GetSugar l w = (case l of None \<Rightarrow> (Panics NilDereference, w) | Some lg \<Rightarrow> (Returns (sugar lg), w))"

text \<open>
  The twelve leveled methods. Each starts with the same guard,
  \<^verbatim>\<open>if l == nil || l.sugar == nil { return }\<close>, and then calls the sugared logger's
  method of the same name.
\<close>

definition Debug :: "Logger option \<Rightarrow> Arg list \<Rightarrow> World \<Rightarrow> unit Outcome \<times> World" where
  "Debug l args w =
     (case l of
        None \<Rightarrow> (Returns (), w)
      | Some lg \<Rightarrow>
          (case sugar lg of
             None \<Rightarrow> (Returns (), w)
           | Some s \<Rightarrow> sugar_log s DebugLevel (Plain args) w))"

definition Debugf :: "Logger option \<Rightarrow> string \<Rightarrow> Arg list \<Rightarrow> World \<Rightarrow> unit Outcome \<times> World" where
  "Debugf l template args w =
     (case l of
        None \<Rightarrow> (Returns (), w)
      | Some lg \<Rightarrow>
          (case sugar lg of
             None \<Rightarrow> (Returns (), w)
           | Some s \<Rightarrow> sugar_log s DebugLevel (Formatted template args) w))"

definition Info :: "Logger option \<Rightarrow> Arg list \<Rightarrow> World \<Rightarrow> unit Outcome \<times> World" where
  "Info l args w =
     (case l of
        None \<Rightarrow> (Returns (), w)
      | Some lg \<Rightarrow>
          (case sugar lg of
             None \<Rightarrow> (Returns (), w)
           | Some s \<Rightarrow> sugar_log s InfoLevel (Plain args) w))"

definition Infof :: "Logger option \<Rightarrow> string \<Rightarrow> Arg list \<Rightarrow> World \<Rightarrow> unit Outcome \<times> World" where
  "Infof l template args w =
     (case l of
        None \<Rightarrow> (Returns (), w)
      | Some lg \<Rightarrow>
          (case sugar lg of
             None \<Rightarrow> (Returns (), w)
           | Some s \<Rightarrow> sugar_log s InfoLevel (Formatted template args) w))"

definition Warn :: "Logger option \<Rightarrow> Arg list \<Rightarrow> World \<Rightarrow> unit Outcome \<times> World" where
  "Warn l args w =
     (case l of
        None \<Rightarrow> (Returns (), w)
      | Some lg \<Rightarrow>
          (case sugar lg of
             None \<Rightarrow> (Returns (), w)
           | Some s \<Rightarrow> sugar_log s WarnLevel (Plain args) w))"

definition Warnf :: "Logger option \<Rightarrow> string \<Rightarrow> Arg list \<Rightarrow> World \<Rightarrow> unit Outcome \<times> World" where
  "Warnf l template args w =
     (case l of
        None \<Rightarrow> (Returns (), w)
      | Some lg \<Rightarrow>
          (case sugar lg of
             None \<Rightarrow> (Returns (), w)
           | Some s \<Rightarrow> sugar_log s WarnLevel (Formatted template args) w))"

definition Error :: "Logger option \<Rightarrow> Arg list \<Rightarrow> World \<Rightarrow> unit Outcome \<times> World" where
  "Error l args w =
     (case l of
        None \<Rightarrow> (Returns (), w)
      | Some lg \<Rightarrow>
          (case sugar lg of
             None \<Rightarrow> (Returns (), w)
           | Some s \<Rightarrow> sugar_log s ErrorLevel (Plain args) w))"

definition Errorf :: "Logger option \<Rightarrow> string \<Rightarrow> Arg list \<Rightarrow> World \<Rightarrow> unit Outcome \<times> World" where
  "Errorf l template args w =
     (case l of
        None \<Rightarrow> (Returns (), w)
      | Some lg \<Rightarrow>
          (case sugar lg of
             None \<Rightarrow> (Returns (), w)
           | Some s \<Rightarrow> sugar_log s ErrorLevel (Formatted template args) w))"

definition Fatal :: "Logger option \<Rightarrow> Arg list \<Rightarrow> World \<Rightarrow> unit Outcome \<times> World" where
  "Fatal l args w =
     (case l of
        None \<Rightarrow> (Returns (), w)
      | Some lg \<Rightarrow>
          (case sugar lg of
             None \<Rightarrow> (Returns (), w)
           | Some s \<Rightarrow> sugar_log s FatalLevel (Plain args) w))"

definition Fatalf :: "Logger option \<Rightarrow> string \<Rightarrow> Arg list \<Rightarrow> World \<Rightarrow> unit Outcome \<times> World" where
  "Fatalf l template args w =
     (case l of
        None \<Rightarrow> (Returns (), w)
      | Some lg \<Rightarrow>
          (case sugar lg of
             None \<Rightarrow> (Returns (), w)
           | Some s \<Rightarrow> sugar_log s FatalLevel (Formatted template args) w))"

definition Panic :: "Logger option \<Rightarrow> Arg list \<Rightarrow> World \<Rightarrow> unit Outcome \<times> World" where
  "Panic l args w =
     (case l of
        None \<Rightarrow> (Returns (), w)
      | Some lg \<Rightarrow>
          (case sugar lg of
             None \<Rightarrow> (Returns (), w)
           | Some s \<Rightarrow> sugar_log s PanicLevel (Plain args) w))"

definition Panicf :: "Logger option \<Rightarrow> string \<Rightarrow> Arg list \<Rightarrow> World \<Rightarrow> unit Outcome \<times> World" where
  "Panicf l template args w =
     (case l of
        None \<Rightarrow> (Returns (), w)
      | Some lg \<Rightarrow>
          (case sugar lg of
             None \<Rightarrow> (Returns (), w)
           | Some s \<Rightarrow> sugar_log s PanicLevel (Formatted template args) w))"

section \<open>Vocabulary of the specification\<close>

text \<open>
  The specification's table of recognized level names, written in lower case, and its
  lookup: \<open>None\<close> is an unrecognized name.
\<close>

definition recognized_levels :: "(string \<times> Level) list" where
  "recognized_levels =
     [(''debug'', DebugLevel), (''info'', InfoLevel), (''warn'', WarnLevel),
      (''error'', ErrorLevel), (''fatal'', FatalLevel), (''panic'', PanicLevel)]"

definition spec_level :: "string \<Rightarrow> Level option" where
  "spec_level name = map_of recognized_levels name"

text \<open>
  A nil or uninitialized logger instance, as the leveled methods test it:
  \<^verbatim>\<open>l == nil || l.sugar == nil\<close>.
\<close>

definition uninitialized :: "Logger option \<Rightarrow> bool" where
  "uninitialized l = (case l of None \<Rightarrow> True | Some lg \<Rightarrow> sugar lg = None)"

text \<open>
  What a call has appended to the trace, and among that the records the logging
  facility wrote to a sink.
\<close>

definition emitted :: "World \<Rightarrow> World \<Rightarrow> Event list" where
  "emitted w w' = drop (length (trace w)) (trace w')"

definition log_records :: "Event list \<Rightarrow> Event list" where
  "log_records es = filter (\<lambda>e. case e of Written _ _ _ _ \<Rightarrow> True | _ \<Rightarrow> False) es"

section \<open>The result of \<open>NewLogger\<close> in closed form\<close>

text \<open>
  The core and the zap logger that \<open>NewLogger\<close> builds, and the records its three
  start-up calls leave in the sink. Lemma \<open>NewLogger_closed_form\<close> below proves that
  \<open>NewLogger\<close> computes exactly these.
\<close>

definition built_core :: "(string \<Rightarrow> string) \<Rightarrow> Config \<Rightarrow> World \<Rightarrow> Core" where
  "built_core ul cfg w =
     \<lparr>enc = (if IsDevelopment cfg \<or> ToLower ul (Getenv w ''DEV_MODE'') = ''true''
             then Console else JSON),
      out = (case Output cfg of None \<Rightarrow> Stdout | Some sink \<Rightarrow> sink),
      level = (case spec_level (ToLower ul (Getenv w ''LOG_LEVEL'')) of
                 Some l \<Rightarrow> l | None \<Rightarrow> InfoLevel)\<rparr>"

definition built_zap :: "(string \<Rightarrow> string) \<Rightarrow> Config \<Rightarrow> World \<Rightarrow> ZapLogger" where
  "built_zap ul cfg w =
     \<lparr>core = built_core ul cfg w, addCaller = True,
      callerSkip = (if CallerSkip cfg \<le> 0 then 1 else CallerSkip cfg),
      addStacktrace = Some ErrorLevel\<rparr>"

definition startup_records :: "Core \<Rightarrow> Event list" where
  "startup_records c =
     (let r1 = Written (out c) (enc c) InfoLevel
                 (Plain [StringArg ''Logger successfully initialized.'']);
          r2 = Written (out c) (enc c) DebugLevel
                 (Plain [StringArg (if enc c = Console
                                    then ''Development mode ENABLED (console output).''
                                    else ''Production mode ENABLED (JSON output).'')]);
          r3 = Written (out c) (enc c) DebugLevel
                 (Formatted ''Log level: %s'' [LevelArg (level c)])
      in if level c = DebugLevel then [r1, r2, r3]
         else if level c = InfoLevel then [r1]
         else [])"

section \<open>Concrete inputs\<close>

text \<open>
  An entity that is not the zero value; a port that fails and still returns a value
  beside the error (its state counts the calls); a world with given environment
  variables, nothing written yet and sinks whose \<^verbatim>\<open>Sync\<close> succeeds; the
  configuration \<^verbatim>\<open>logger.Config{}\<close> that \<^verbatim>\<open>main\<close> passes; an initialized logger
  at info level and one at fatal level (what \<^verbatim>\<open>LOG_LEVEL=fatal\<close> gives).
\<close>

definition example_object :: MyObject where
  "example_object = \<lparr>ID = 7, Name = ''seven''\<rparr>"

definition failing_port :: "nat MyObjectRepository_port" where
  "failing_port =
     \<lparr>port_GetAllObjects =
        (\<lambda>calls. (Returns (Slice [example_object], Some (Err ''storage down'')), Suc calls)),
      port_GetObjectByID =
        (\<lambda>id' calls.
           (Returns (example_object\<lparr>ID := id'\<rparr>, Some (Err ''not found'')), Suc calls))\<rparr>"

definition world_with :: "(string \<Rightarrow> string option) \<Rightarrow> World" where
  "world_with e = \<lparr>env = e, trace = [], sync_result = (\<lambda>_. None)\<rparr>"

definition default_config :: Config where
  "default_config = \<lparr>IsDevelopment = False, Output = None, CallerSkip = 0\<rparr>"

definition example_zap :: ZapLogger where
  "example_zap =
     \<lparr>core = \<lparr>enc = JSON, out = Stdout, level = InfoLevel\<rparr>, addCaller = True,
      callerSkip = 1, addStacktrace = Some ErrorLevel\<rparr>"

definition example_logger :: Logger where
  "example_logger = \<lparr>zap = Some example_zap, sugar = Some (Sugared example_zap)\<rparr>"

definition fatal_level_zap :: ZapLogger where
  "fatal_level_zap =
     \<lparr>core = \<lparr>enc = JSON, out = Stdout, level = FatalLevel\<rparr>, addCaller = True,
      callerSkip = 1, addStacktrace = Some ErrorLevel\<rparr>"

definition fatal_level_logger :: Logger where
  "fatal_level_logger = \<lparr>zap = Some fatal_level_zap, sugar = Some (Sugared fatal_level_zap)\<rparr>"

section \<open>Lemmas about the model\<close>

lemma Getenv_trace [simp]: "Getenv (w\<lparr>trace := t\<rparr>) k = Getenv w k"
  by (simp add: Getenv_def)

lemma spec_level_cases:
  "spec_level k =
     (if k = ''debug'' then Some DebugLevel
      else if k = ''info'' then Some InfoLevel
      else if k = ''warn'' then Some WarnLevel
      else if k = ''error'' then Some ErrorLevel
      else if k = ''fatal'' then Some FatalLevel
      else if k = ''panic'' then Some PanicLevel
      else None)"
  by (simp add: spec_level_def recognized_levels_def)

lemma emitted_append [simp]: "emitted w (w\<lparr>trace := trace w @ es\<rparr>) = es"
  by (simp add: emitted_def)

lemma emitted_same [simp]: "emitted w w = []"
  by (simp add: emitted_def)

lemma log_records_Nil [simp]: "log_records [] = []"
  by (simp add: log_records_def)

lemma log_records_append [simp]: "log_records (xs @ ys) = log_records xs @ log_records ys"
  by (simp add: log_records_def)

lemma log_records_Printed [simp]: "log_records [Printed x] = []"
  by (simp add: log_records_def)

lemma Printed_notin_startup_records [simp]: "Printed x \<notin> set (startup_records c)"
  by (simp add: startup_records_def Let_def)

lemma log_records_startup_records [simp]: "log_records (startup_records c) = startup_records c"
  by (simp add: startup_records_def log_records_def Let_def)

text \<open>On ASCII input \<open>ToLower\<close> is the byte-wise map, whatever the Unicode tables are.\<close>

lemma ToLower_ascii: "list_all isASCII v \<Longrightarrow> ToLower ul v = map lower_byte v"
  by (simp add: ToLower_def)

lemma isASCII_lower_byte [simp]: "isASCII (lower_byte c) = isASCII c"
  by (simp add: isASCII_def lower_byte_def)

lemma lower_ascii_imp_ascii:
  assumes "map lower_byte v = k" and "list_all isASCII k"
  shows "list_all isASCII v"
proof -
  have "list_all isASCII (map lower_byte v) = list_all isASCII v"
    by (induction v) simp_all
  with assms show ?thesis by simp
qed

lemma ascii_true: "list_all isASCII ''true''"
  by code_simp

text \<open>
  \<open>NewLogger\<close> always returns a logger and a nil error. The world it leaves has, after
  what was there, the warning when the level name was not recognized and then the
  start-up records the resolved level lets through.
\<close>

lemma NewLogger_closed_form:
  "NewLogger ul cfg w =
     (Returns (Some \<lparr>zap = Some (built_zap ul cfg w),
                      sugar = Some (Sugared (built_zap ul cfg w))\<rparr>, None),
      w\<lparr>trace := trace w @
            (if spec_level (ToLower ul (Getenv w ''LOG_LEVEL'')) = None
             then [Printed invalid_level_warning] else []) @
            startup_records (built_core ul cfg w)\<rparr>)"
  unfolding NewLogger_def built_zap_def built_core_def startup_records_def spec_level_cases
  by (simp add: Let_def andThen_def Enabled_def)

text \<open>The wiring of the entry point: the use case over the adapter.\<close>

lemma usecase_over_adapter:
  "MyObjectUseCase_GetAllObjects
     (NewMyObjectUseCase (Some (MyObjectRepository_as_port NewMyObjectRepository))) s
     = (Returns (Slice [], None), s)"
  "MyObjectUseCase_GetObjectByID
     (NewMyObjectUseCase (Some (MyObjectRepository_as_port NewMyObjectRepository))) i s
     = (Returns (MyObject_zero, None), s)"
  by (simp_all add: MyObjectUseCase_GetAllObjects_def MyObjectUseCase_GetObjectByID_def
        NewMyObjectUseCase_def MyObjectRepository_as_port_def
        MyObjectRepository_GetAllObjects_def MyObjectRepository_GetObjectByID_def)

text \<open>On an initialized logger \<open>Sync\<close> flushes the core's sink and returns its answer.\<close>

lemma Sync_initialized:
  "Sync (Some \<lparr>zap = Some z, sugar = sg\<rparr>) w =
     (Returns (sync_result w (out (core z))), w\<lparr>trace := trace w @ [Synced (out (core z))]\<rparr>)"
  by (simp add: Sync_def zap_Sync_def)

lemma getters_on_nil:
  "GetZap None w = (Panics NilDereference, w)"
  "GetSugar None w = (Panics NilDereference, w)"
  by (simp_all add: GetZap_def GetSugar_def)

section \<open>The use case\<close>

text \<open>
  Claim C1, as amended. For every injected port implementation, every state and every
  id, the use case calls the port operation once and hands on the state the port
  leaves. When the port returns with a nil error, the use case returns the port's
  value and the nil error unchanged. When the port returns with an error, the use
  case returns that same error, not wrapped, beside a nil slice
  (\<open>GetAllObjects\<close>) or the zero-valued entity (\<open>GetObjectByID\<close>) in place of
  the value the port returned. An exit or a panic of the port passes through.
\<close>

theorem usecase_delegation:
  "MyObjectUseCase_GetAllObjects (NewMyObjectUseCase (Some port)) s =
     (case port_GetAllObjects port s of
        (Returns (objects, Some e), s') \<Rightarrow> (Returns (NilSlice, Some e), s')
      | r \<Rightarrow> r)
   \<and> MyObjectUseCase_GetObjectByID (NewMyObjectUseCase (Some port)) i s =
     (case port_GetObjectByID port i s of
        (Returns (object, Some e), s') \<Rightarrow> (Returns (MyObject_zero, Some e), s')
      | r \<Rightarrow> r)"
  by (simp add: MyObjectUseCase_GetAllObjects_def MyObjectUseCase_GetObjectByID_def
        NewMyObjectUseCase_def split: prod.splits Outcome.splits option.splits)

text \<open>
  Claim C1 as stated says the use case returns exactly what the port returns, also in
  the failure case. It does not for a port that returns a value beside its error:
  \<open>failing_port\<close> returns a one-element slice with the error, the use case a nil
  slice with the error; by id, the port returns the entity with that id, the use case
  the zero-valued entity.
\<close>

theorem usecase_delegation_counterexample:
  "port_GetAllObjects failing_port 0
     = (Returns (Slice [example_object], Some (Err ''storage down'')), 1)
   \<and> MyObjectUseCase_GetAllObjects (NewMyObjectUseCase (Some failing_port)) 0
     = (Returns (NilSlice, Some (Err ''storage down'')), 1)
   \<and> MyObjectUseCase_GetAllObjects (NewMyObjectUseCase (Some failing_port)) 0
     \<noteq> port_GetAllObjects failing_port 0
   \<and> port_GetObjectByID failing_port 42 0
     = (Returns (\<lparr>ID = 42, Name = ''seven''\<rparr>, Some (Err ''not found'')), 1)
   \<and> MyObjectUseCase_GetObjectByID (NewMyObjectUseCase (Some failing_port)) 42 0
     = (Returns (\<lparr>ID = 0, Name = []\<rparr>, Some (Err ''not found'')), 1)
   \<and> MyObjectUseCase_GetObjectByID (NewMyObjectUseCase (Some failing_port)) 42 0
     \<noteq> port_GetObjectByID failing_port 42 0"
  by (simp add: MyObjectUseCase_GetAllObjects_def MyObjectUseCase_GetObjectByID_def
        NewMyObjectUseCase_def failing_port_def example_object_def MyObject_zero_def)

text \<open>
  Claim C6. Whenever the injected port operation returns a non-nil error, the use case
  discards the value the port paired with it: \<open>GetAllObjects\<close> returns a nil slice
  with that error and \<open>GetObjectByID\<close> the zero-valued entity with that error,
  whatever value the port returned beside the error.
\<close>

theorem usecase_discards_value_on_error:
  "(port_GetAllObjects port s = (Returns (objects, Some e), s') \<longrightarrow>
      MyObjectUseCase_GetAllObjects (NewMyObjectUseCase (Some port)) s
        = (Returns (NilSlice, Some e), s'))
   \<and> (port_GetObjectByID port i s = (Returns (object, Some e'), s'') \<longrightarrow>
      MyObjectUseCase_GetObjectByID (NewMyObjectUseCase (Some port)) i s
        = (Returns (MyObject_zero, Some e'), s''))"
  by (simp add: MyObjectUseCase_GetAllObjects_def MyObjectUseCase_GetObjectByID_def
        NewMyObjectUseCase_def)

text \<open>The failing port meets both hypotheses of C6.\<close>

theorem usecase_discards_value_on_error_witness:
  "port_GetAllObjects failing_port 0
     = (Returns (Slice [example_object], Some (Err ''storage down'')), 1)
   \<and> MyObjectUseCase_GetAllObjects (NewMyObjectUseCase (Some failing_port)) 0
     = (Returns (NilSlice, Some (Err ''storage down'')), 1)
   \<and> port_GetObjectByID failing_port 42 0
     = (Returns (example_object\<lparr>ID := 42\<rparr>, Some (Err ''not found'')), 1)
   \<and> MyObjectUseCase_GetObjectByID (NewMyObjectUseCase (Some failing_port)) 42 0
     = (Returns (MyObject_zero, Some (Err ''not found'')), 1)"
proof -
  have h1: "port_GetAllObjects failing_port 0
     = (Returns (Slice [example_object], Some (Err ''storage down'')), 1)"
    by (simp add: failing_port_def)
  have h2: "port_GetObjectByID failing_port 42 0
     = (Returns (example_object\<lparr>ID := 42\<rparr>, Some (Err ''not found'')), 1)"
    by (simp add: failing_port_def)
  from usecase_discards_value_on_error
         [of failing_port 0 "Slice [example_object]" "Err ''storage down''" 1
             42 "example_object\<lparr>ID := 42\<rparr>" "Err ''not found''" 1]
       h1 h2
  show ?thesis by simp
qed

section \<open>The repository adapter\<close>

text \<open>
  Claim C9. For every adapter receiver and every surrounding state, the adapter's
  \<open>GetAllObjects\<close> returns an empty sequence and no error. It has no side effect
  (the state comes back unchanged) and is idempotent (calling it again after it has
  returned gives the same result and state as calling it once).
\<close>

theorem adapter_GetAllObjects_empty:
  "MyObjectRepository_GetAllObjects r s = (Returns (Slice [], None), s)
   \<and> andThen (MyObjectRepository_GetAllObjects r s) (\<lambda>_. MyObjectRepository_GetAllObjects r)
       = MyObjectRepository_GetAllObjects r s"
  by (simp add: MyObjectRepository_GetAllObjects_def andThen_def)

text \<open>
  Claim C10. For every id of type \<^verbatim>\<open>int64\<close>, zero, negative and the largest one
  included, the adapter's \<open>GetObjectByID\<close> returns the zero-valued entity and no
  error, and leaves the state unchanged.
\<close>

theorem adapter_GetObjectByID_zero:
  "MyObjectRepository_GetObjectByID r id' s = (Returns (MyObject_zero, None), s)
   \<and> MyObjectRepository_GetObjectByID r 0 s = (Returns (MyObject_zero, None), s)
   \<and> MyObjectRepository_GetObjectByID r (- 1) s = (Returns (MyObject_zero, None), s)
   \<and> MyObjectRepository_GetObjectByID r 0x7FFFFFFFFFFFFFFF s = (Returns (MyObject_zero, None), s)"
  by (simp add: MyObjectRepository_GetObjectByID_def)

section \<open>Logger construction\<close>

text \<open>
  Claim C5. For every configuration and every environment, \<open>NewLogger\<close> returns a
  logger whose level is resolved from \<^verbatim>\<open>LOG_LEVEL\<close>: the lower-cased value is
  looked up among debug, info, warn, error, fatal and panic; a value that is not
  recognized resolves to info, and exactly then the warning is printed to standard
  output. Lower-casing an ASCII value is the byte-wise map of \<^verbatim>\<open>A..Z\<close> to
  \<^verbatim>\<open>a..z\<close>, so the matching is case-insensitive. An absent variable is not
  recognized: it resolves to info with the warning.
\<close>

theorem log_level_resolution:
  "\<exists>lg z w'. NewLogger ul cfg w = (Returns (Some lg, None), w') \<and> zap lg = Some z \<and>
      sugar lg = Some (Sugared z)
      \<and> level (core z) =
          (case spec_level (ToLower ul (Getenv w ''LOG_LEVEL'')) of
             Some l \<Rightarrow> l | None \<Rightarrow> InfoLevel)
      \<and> (Printed invalid_level_warning \<in> set (emitted w w'))
          = (spec_level (ToLower ul (Getenv w ''LOG_LEVEL'')) = None)
      \<and> (list_all isASCII (Getenv w ''LOG_LEVEL'') \<longrightarrow>
            ToLower ul (Getenv w ''LOG_LEVEL'') = map lower_byte (Getenv w ''LOG_LEVEL''))
      \<and> (env w ''LOG_LEVEL'' = None \<longrightarrow>
            level (core z) = InfoLevel \<and> Printed invalid_level_warning \<in> set (emitted w w'))"
proof -
  have absent: "spec_level (ToLower ul (Getenv w ''LOG_LEVEL'')) = None"
    if "env w ''LOG_LEVEL'' = None"
    using that by (simp add: Getenv_def ToLower_def spec_level_cases)
  show ?thesis
    by (simp add: NewLogger_closed_form built_zap_def built_core_def ToLower_ascii absent)
qed

text \<open>
  \<^verbatim>\<open>LOG_LEVEL=WaRn\<close> is ASCII and resolves to warn without the warning; with no
  \<^verbatim>\<open>LOG_LEVEL\<close> the level is info and the warning is printed.
\<close>

theorem log_level_resolution_witness:
  "(\<exists>lg z w'. NewLogger id default_config (world_with [''LOG_LEVEL'' \<mapsto> ''WaRn''])
        = (Returns (Some lg, None), w') \<and> zap lg = Some z \<and> level (core z) = WarnLevel
        \<and> Printed invalid_level_warning
             \<notin> set (emitted (world_with [''LOG_LEVEL'' \<mapsto> ''WaRn'']) w'))
   \<and> (\<exists>lg z w'. NewLogger id default_config (world_with Map.empty)
        = (Returns (Some lg, None), w') \<and> zap lg = Some z \<and> level (core z) = InfoLevel
        \<and> Printed invalid_level_warning \<in> set (emitted (world_with Map.empty) w'))"
proof -
  let ?w1 = "world_with [''LOG_LEVEL'' \<mapsto> ''WaRn'']"
  have a: "list_all isASCII (Getenv ?w1 ''LOG_LEVEL'')"
    by code_simp
  have l: "map lower_byte (Getenv ?w1 ''LOG_LEVEL'') = ''warn''"
    by code_simp
  have s: "spec_level ''warn'' = Some WarnLevel"
    by (simp add: spec_level_cases)
  have n: "env (world_with Map.empty) ''LOG_LEVEL'' = None"
    by (simp add: world_with_def)
  from log_level_resolution [of id default_config ?w1] a l s
  have 1: "\<exists>lg z w'. NewLogger id default_config ?w1
        = (Returns (Some lg, None), w') \<and> zap lg = Some z \<and> level (core z) = WarnLevel
        \<and> Printed invalid_level_warning \<notin> set (emitted ?w1 w')"
    by auto
  from log_level_resolution [of id default_config "world_with Map.empty"] n
  have 2: "\<exists>lg z w'. NewLogger id default_config (world_with Map.empty)
        = (Returns (Some lg, None), w') \<and> zap lg = Some z \<and> level (core z) = InfoLevel
        \<and> Printed invalid_level_warning \<in> set (emitted (world_with Map.empty) w')"
    by auto
  from 1 2 show ?thesis by (rule conjI)
qed

text \<open>
  Claim C4. For every configuration and every environment: when \<^verbatim>\<open>DEV_MODE\<close>
  equals "true" up to the case of its letters and the configuration's development flag
  is unset, the logger that \<open>NewLogger\<close> returns has the console encoding; and when
  the development flag is set, it has the console encoding whatever the environment
  holds.
\<close>

theorem development_mode_console:
  "(map lower_byte (Getenv w ''DEV_MODE'') = ''true'' \<and> \<not> IsDevelopment cfg \<longrightarrow>
      (\<exists>lg z w'. NewLogger ul cfg w = (Returns (Some lg, None), w') \<and> zap lg = Some z \<and>
         sugar lg = Some (Sugared z) \<and> enc (core z) = Console))
   \<and> (IsDevelopment cfg \<longrightarrow>
      (\<exists>lg z w'. NewLogger ul cfg w = (Returns (Some lg, None), w') \<and> zap lg = Some z \<and>
         sugar lg = Some (Sugared z) \<and> enc (core z) = Console))"
proof (intro conjI impI)
  assume a: "map lower_byte (Getenv w ''DEV_MODE'') = ''true'' \<and> \<not> IsDevelopment cfg"
  from a have m: "map lower_byte (Getenv w ''DEV_MODE'') = ''true''"
    by (rule conjunct1)
  have "list_all isASCII (Getenv w ''DEV_MODE'')"
    by (rule lower_ascii_imp_ascii [OF m ascii_true])
  then have "ToLower ul (Getenv w ''DEV_MODE'') = map lower_byte (Getenv w ''DEV_MODE'')"
    by (rule ToLower_ascii)
  with m have t: "ToLower ul (Getenv w ''DEV_MODE'') = ''true''"
    by (simp only:)
  show "\<exists>lg z w'. NewLogger ul cfg w = (Returns (Some lg, None), w') \<and> zap lg = Some z \<and>
         sugar lg = Some (Sugared z) \<and> enc (core z) = Console"
    by (simp add: NewLogger_closed_form built_zap_def built_core_def t)
next
  assume "IsDevelopment cfg"
  then show "\<exists>lg z w'. NewLogger ul cfg w = (Returns (Some lg, None), w') \<and> zap lg = Some z \<and>
         sugar lg = Some (Sugared z) \<and> enc (core z) = Console"
    by (simp add: NewLogger_closed_form built_zap_def built_core_def)
qed

text \<open>
  \<^verbatim>\<open>DEV_MODE=TrUe\<close> with the flag unset, and the flag set with
  \<^verbatim>\<open>DEV_MODE=false\<close>, both give the console encoding.
\<close>

theorem development_mode_console_witness:
  "(\<exists>lg z w'. NewLogger id default_config (world_with [''DEV_MODE'' \<mapsto> ''TrUe''])
        = (Returns (Some lg, None), w') \<and> zap lg = Some z \<and>
        sugar lg = Some (Sugared z) \<and> enc (core z) = Console)
   \<and> (\<exists>lg z w'. NewLogger id (default_config\<lparr>IsDevelopment := True\<rparr>)
        (world_with [''DEV_MODE'' \<mapsto> ''false''])
        = (Returns (Some lg, None), w') \<and> zap lg = Some z \<and>
        sugar lg = Some (Sugared z) \<and> enc (core z) = Console)"
proof -
  have h1: "map lower_byte (Getenv (world_with [''DEV_MODE'' \<mapsto> ''TrUe'']) ''DEV_MODE'') = ''true''
            \<and> \<not> IsDevelopment default_config"
    by code_simp
  have h2: "IsDevelopment (default_config\<lparr>IsDevelopment := True\<rparr>)"
    by simp
  from development_mode_console [of "world_with [''DEV_MODE'' \<mapsto> ''TrUe'']" default_config id] h1
       development_mode_console [of "world_with [''DEV_MODE'' \<mapsto> ''false'']"
          "default_config\<lparr>IsDevelopment := True\<rparr>" id] h2
  show ?thesis by blast
qed

text \<open>
  Claim C3, as amended. For every configuration and every environment, \<open>NewLogger\<close>
  returns a logger after three logging calls: one at info level confirming the
  initialization, one at debug level reporting the mode and one at debug level
  reporting the level. The sink receives those the resolved level enables, in that
  order: all three at debug, the confirming one alone at info, none at warn, error,
  fatal or panic; so the number of records written is 3, 1 or 0.
\<close>

theorem startup_records_by_level:
  "\<exists>lg z w'. NewLogger ul cfg w = (Returns (Some lg, None), w') \<and> zap lg = Some z \<and>
      sugar lg = Some (Sugared z)
      \<and> log_records (emitted w w') =
          (let c = core z;
               confirming = Written (out c) (enc c) InfoLevel
                  (Plain [StringArg ''Logger successfully initialized.'']);
               mode = Written (out c) (enc c) DebugLevel
                  (Plain [StringArg (if enc c = Console
                                     then ''Development mode ENABLED (console output).''
                                     else ''Production mode ENABLED (JSON output).'')]);
               lvl = Written (out c) (enc c) DebugLevel
                  (Formatted ''Log level: %s'' [LevelArg (level c)])
           in if level c = DebugLevel then [confirming, mode, lvl]
              else if level c = InfoLevel then [confirming]
              else [])
      \<and> length (log_records (emitted w w')) \<in> {0, 1, 3}"
proof -
  let ?c = "built_core ul cfg w"
  have shape: "startup_records ?c =
          (let c = ?c;
               confirming = Written (out c) (enc c) InfoLevel
                  (Plain [StringArg ''Logger successfully initialized.'']);
               mode = Written (out c) (enc c) DebugLevel
                  (Plain [StringArg (if enc c = Console
                                     then ''Development mode ENABLED (console output).''
                                     else ''Production mode ENABLED (JSON output).'')]);
               lvl = Written (out c) (enc c) DebugLevel
                  (Formatted ''Log level: %s'' [LevelArg (level c)])
           in if level c = DebugLevel then [confirming, mode, lvl]
              else if level c = InfoLevel then [confirming]
              else [])"
    by (simp add: startup_records_def Let_def)
  have count: "length (startup_records ?c) \<in> {0, 1, 3}"
    by (simp add: startup_records_def Let_def)
  have "log_records (emitted w (snd (NewLogger ul cfg w))) = startup_records ?c"
    by (simp add: NewLogger_closed_form)
  with shape count show ?thesis
    by (simp add: NewLogger_closed_form built_zap_def)
qed

text \<open>
  Claim C3 as stated says exactly two lines are emitted for every input. With the
  configuration of \<^verbatim>\<open>main\<close>, \<^verbatim>\<open>LOG_LEVEL=debug\<close> gives three lines (the mode
  and the level are two separate records), \<^verbatim>\<open>LOG_LEVEL=info\<close> gives one, and
  \<^verbatim>\<open>LOG_LEVEL=error\<close> gives none.
\<close>

theorem startup_two_lines_counterexample:
  "emitted (world_with [''LOG_LEVEL'' \<mapsto> ''debug''])
       (snd (NewLogger id default_config (world_with [''LOG_LEVEL'' \<mapsto> ''debug''])))
     = [Written Stdout JSON InfoLevel (Plain [StringArg ''Logger successfully initialized.'']),
        Written Stdout JSON DebugLevel
          (Plain [StringArg ''Production mode ENABLED (JSON output).'']),
        Written Stdout JSON DebugLevel (Formatted ''Log level: %s'' [LevelArg DebugLevel])]
   \<and> emitted (world_with [''LOG_LEVEL'' \<mapsto> ''info''])
       (snd (NewLogger id default_config (world_with [''LOG_LEVEL'' \<mapsto> ''info''])))
     = [Written Stdout JSON InfoLevel (Plain [StringArg ''Logger successfully initialized.''])]
   \<and> emitted (world_with [''LOG_LEVEL'' \<mapsto> ''error''])
       (snd (NewLogger id default_config (world_with [''LOG_LEVEL'' \<mapsto> ''error''])))
     = []
   \<and> length (emitted (world_with [''LOG_LEVEL'' \<mapsto> ''debug''])
       (snd (NewLogger id default_config (world_with [''LOG_LEVEL'' \<mapsto> ''debug''])))) \<noteq> 2
   \<and> length (emitted (world_with [''LOG_LEVEL'' \<mapsto> ''info''])
       (snd (NewLogger id default_config (world_with [''LOG_LEVEL'' \<mapsto> ''info''])))) \<noteq> 2
   \<and> length (emitted (world_with [''LOG_LEVEL'' \<mapsto> ''error''])
       (snd (NewLogger id default_config (world_with [''LOG_LEVEL'' \<mapsto> ''error''])))) \<noteq> 2"
  by (simp add: NewLogger_def Let_def andThen_def Enabled_def ToLower_def isASCII_def
        lower_byte_def Getenv_def world_with_def default_config_def emitted_def)

section \<open>Methods on a nil or uninitialized logger\<close>

text \<open>
  Claim C7. For every argument list and every format string, calling \<open>Debug\<close>,
  \<open>Debugf\<close>, \<open>Info\<close>, \<open>Infof\<close>, \<open>Warn\<close>, \<open>Warnf\<close>, \<open>Error\<close> or
  \<open>Errorf\<close> on a nil logger, or on a logger whose sugared logger is nil, returns
  normally and leaves the world as it was: nothing is written.
\<close>

theorem leveled_methods_noop_uninitialized:
  "uninitialized l \<Longrightarrow>
     Debug l args w = (Returns (), w) \<and> Debugf l template args w = (Returns (), w)
   \<and> Info l args w = (Returns (), w) \<and> Infof l template args w = (Returns (), w)
   \<and> Warn l args w = (Returns (), w) \<and> Warnf l template args w = (Returns (), w)
   \<and> Error l args w = (Returns (), w) \<and> Errorf l template args w = (Returns (), w)"
  by (simp add: uninitialized_def Debug_def Debugf_def Info_def Infof_def Warn_def Warnf_def
        Error_def Errorf_def split: option.splits)

text \<open>Both kinds of uninitialized logger: the nil pointer and the empty struct.\<close>

theorem leveled_methods_noop_uninitialized_witness:
  "uninitialized None
   \<and> uninitialized (Some \<lparr>zap = None, sugar = None\<rparr>)
   \<and> Debug None [StringArg ''x''] (world_with Map.empty) = (Returns (), world_with Map.empty)
   \<and> Errorf (Some \<lparr>zap = None, sugar = None\<rparr>) ''%d'' [IntArg 3] (world_with Map.empty)
       = (Returns (), world_with Map.empty)"
  using leveled_methods_noop_uninitialized
          [of None "[StringArg ''x'']" "world_with Map.empty" "''%d''"]
        leveled_methods_noop_uninitialized
          [of "Some \<lparr>zap = None, sugar = None\<rparr>" "[IntArg 3]" "world_with Map.empty" "''%d''"]
  by (simp add: uninitialized_def)

text \<open>
  Claim C2, as amended. \<open>Fatal\<close>, \<open>Fatalf\<close>, \<open>Panic\<close> and \<open>Panicf\<close> start with
  the same guard as the other leveled methods: on a nil logger, or on a logger whose
  sugared logger is nil, they return normally and leave the world as it was, with no
  record, no exit and no panic. The contract of the underlying facility takes effect
  on an initialized logger only. There \<open>Fatal\<close> and \<open>Fatalf\<close> write the record
  to the core's sink (no core level is above fatal), flush the sink and end in
  \<^verbatim>\<open>os.Exit(1)\<close>. \<open>Panic\<close> and \<open>Panicf\<close> panic with the message; before
  that they write the record and flush the sink, unless the core's level is fatal,
  in which case nothing is written.
\<close>

theorem fatal_panic_guarded_noop:
  "(uninitialized l \<longrightarrow>
       Fatal l args w = (Returns (), w) \<and> Fatalf l template args w = (Returns (), w)
     \<and> Panic l args w = (Returns (), w) \<and> Panicf l template args w = (Returns (), w))
   \<and> (l = Some lg \<and> sugar lg = Some (Sugared z) \<longrightarrow>
       Fatal l args w =
         (Exits 1,
          w\<lparr>trace := trace w @
             [Written (out (core z)) (enc (core z)) FatalLevel (Plain args),
              Synced (out (core z))]\<rparr>)
     \<and> Fatalf l template args w =
         (Exits 1,
          w\<lparr>trace := trace w @
             [Written (out (core z)) (enc (core z)) FatalLevel (Formatted template args),
              Synced (out (core z))]\<rparr>)
     \<and> Panic l args w =
         (Panics (LoggedPanic (Plain args)),
          if level (core z) = FatalLevel then w
          else w\<lparr>trace := trace w @
             [Written (out (core z)) (enc (core z)) PanicLevel (Plain args),
              Synced (out (core z))]\<rparr>)
     \<and> Panicf l template args w =
         (Panics (LoggedPanic (Formatted template args)),
          if level (core z) = FatalLevel then w
          else w\<lparr>trace := trace w @
             [Written (out (core z)) (enc (core z)) PanicLevel (Formatted template args),
              Synced (out (core z))]\<rparr>))"
  (is "(_ \<longrightarrow> ?nil) \<and> (_ \<longrightarrow> ?init)")
proof (rule conjI)
  have nil_part: ?nil if "uninitialized l"
    using that
    by (simp add: uninitialized_def Fatal_def Fatalf_def Panic_def Panicf_def
          split: option.splits)
  show "uninitialized l \<longrightarrow> ?nil"
    by (rule impI) (rule nil_part)
next
  have init_part: ?init if "l = Some lg \<and> sugar lg = Some (Sugared z)"
    using that
    by (cases "level (core z)")
       (simp_all add: Fatal_def Fatalf_def Panic_def Panicf_def Let_def Enabled_def)
  show "l = Some lg \<and> sugar lg = Some (Sugared z) \<longrightarrow> ?init"
    by (rule impI) (rule init_part)
qed

text \<open>
  The nil logger for the first part; for the second an initialized logger at info
  level, where both records are written, and one at fatal level, where \<open>Panic\<close>
  panics with nothing written.
\<close>

theorem fatal_panic_guarded_noop_witness:
  "uninitialized None
   \<and> Fatal None [StringArg ''boom''] (world_with Map.empty) = (Returns (), world_with Map.empty)
   \<and> Panicf None ''%s'' [StringArg ''boom''] (world_with Map.empty)
       = (Returns (), world_with Map.empty)
   \<and> sugar example_logger = Some (Sugared example_zap)
   \<and> Fatal (Some example_logger) [StringArg ''boom''] (world_with Map.empty)
       = (Exits 1,
          \<lparr>env = Map.empty,
           trace = [Written Stdout JSON FatalLevel (Plain [StringArg ''boom'']), Synced Stdout],
           sync_result = (\<lambda>_. None)\<rparr>)
   \<and> Panic (Some example_logger) [StringArg ''boom''] (world_with Map.empty)
       = (Panics (LoggedPanic (Plain [StringArg ''boom''])),
          \<lparr>env = Map.empty,
           trace = [Written Stdout JSON PanicLevel (Plain [StringArg ''boom'']), Synced Stdout],
           sync_result = (\<lambda>_. None)\<rparr>)
   \<and> sugar fatal_level_logger = Some (Sugared fatal_level_zap)
   \<and> Panic (Some fatal_level_logger) [StringArg ''boom''] (world_with Map.empty)
       = (Panics (LoggedPanic (Plain [StringArg ''boom''])), world_with Map.empty)
   \<and> Fatal (Some fatal_level_logger) [StringArg ''boom''] (world_with Map.empty)
       = (Exits 1,
          \<lparr>env = Map.empty,
           trace = [Written Stdout JSON FatalLevel (Plain [StringArg ''boom'']), Synced Stdout],
           sync_result = (\<lambda>_. None)\<rparr>)"
proof -
  have h1: "uninitialized None"
    by (simp add: uninitialized_def)
  have h2: "Some example_logger = Some example_logger
            \<and> sugar example_logger = Some (Sugared example_zap)"
    by (simp add: example_logger_def)
  have h3: "Some fatal_level_logger = Some fatal_level_logger
            \<and> sugar fatal_level_logger = Some (Sugared fatal_level_zap)"
    by (simp add: fatal_level_logger_def)
  from fatal_panic_guarded_noop
         [of None "[StringArg ''boom'']" "world_with Map.empty" "''%s''"
             example_logger example_zap] h1
       fatal_panic_guarded_noop
         [of "Some example_logger" "[StringArg ''boom'']" "world_with Map.empty" "''%s''"
             example_logger example_zap] h2
       fatal_panic_guarded_noop
         [of "Some fatal_level_logger" "[StringArg ''boom'']" "world_with Map.empty" "''%s''"
             fatal_level_logger fatal_level_zap] h3
  show ?thesis
    by (simp add: example_zap_def fatal_level_zap_def world_with_def)
qed

text \<open>
  Claim C2 as stated says that on a nil logger \<open>Fatal\<close> still terminates the process
  and \<open>Panic\<close> still panics. On the nil logger all four return normally and the world
  is unchanged.
\<close>

theorem fatal_panic_nil_counterexample:
  "Fatal None [StringArg ''boom''] (world_with Map.empty) = (Returns (), world_with Map.empty)
   \<and> Fatalf None ''%s'' [StringArg ''boom''] (world_with Map.empty)
       = (Returns (), world_with Map.empty)
   \<and> Panic None [StringArg ''boom''] (world_with Map.empty) = (Returns (), world_with Map.empty)
   \<and> Panicf None ''%s'' [StringArg ''boom''] (world_with Map.empty)
       = (Returns (), world_with Map.empty)
   \<and> fst (Fatal None [StringArg ''boom''] (world_with Map.empty)) \<noteq> Exits 1
   \<and> fst (Panic None [StringArg ''boom''] (world_with Map.empty))
        \<noteq> Panics (LoggedPanic (Plain [StringArg ''boom'']))"
  by (simp add: Fatal_def Fatalf_def Panic_def Panicf_def)

text \<open>
  Claim C8. \<open>Sync\<close> on a nil logger, or on a logger whose zap logger is nil, returns
  a nil error and leaves the world as it was: nothing is flushed.
\<close>

theorem Sync_uninitialized_succeeds:
  "Sync None w = (Returns None, w) \<and> Sync (Some (lg\<lparr>zap := None\<rparr>)) w = (Returns None, w)"
  by (simp add: Sync_def)

end
